theory Spec2Isabelle
  imports Main "HOL-Library.Word"
begin

section \<open>Bytes, numbers and their textual renderings\<close>

text \<open>
  A \<^verbatim>\<open>Uint8Array\<close> is a list of bytes. Amounts, panic codes, precompile identifiers
  and program counters are non-negative integers (\<^verbatim>\<open>bigint\<close> or \<^verbatim>\<open>number\<close> in the
  source); they are rendered by \<^verbatim>\<open>toString(radix)\<close> and by template literals.
\<close>

type_synonym byte = "8 word"
type_synonym bytes = "byte list"

definition digitChar :: "nat \<Rightarrow> char" where
  "digitChar d = ''0123456789abcdef'' ! d"

text \<open>\<^verbatim>\<open>n.toString(radix)\<close> for a non-negative \<^verbatim>\<open>n\<close> and a radix of 10 or 16.\<close>

fun toStringRadix :: "nat \<Rightarrow> nat \<Rightarrow> string" where
  "toStringRadix radix n =
     (if n < radix \<or> radix < 2 then [digitChar n]
      else toStringRadix radix (n div radix) @ [digitChar (n mod radix)])"

declare toStringRadix.simps [simp del]

text \<open>\<^verbatim>\<open>Buffer.from(bytes).toString("hex")\<close>: two lowercase hexadecimal digits per byte.\<close>

definition byteToHex :: "byte \<Rightarrow> string" where
  "byteToHex b = [digitChar (unat b div 16), digitChar (unat b mod 16)]"

definition bufferToHex :: "bytes \<Rightarrow> string" where
  "bufferToHex bs = concat (map byteToHex bs)"

text \<open>
  Modelled from the spec: \<^verbatim>\<open>bytesToHexString\<close> of the utilities package is not among the
  sources. The spec renders an address "as hex" and raw bytes "as lowercase hex prefixed
  with 0x".
\<close>

definition bytesToHexString :: "bytes \<Rightarrow> string" where
  "bytesToHexString bs = ''0x'' @ bufferToHex bs"

section \<open>Return data\<close>

text \<open>
  Modelled from the spec: the class \<^verbatim>\<open>ReturnData\<close> comes from the execution engine's
  package and is not among the sources. Section 4.1 of the spec: the first four bytes are
  a selector; under the \<^verbatim>\<open>Error(string)\<close> selector the remainder is ABI-decoded as one
  string, under the \<^verbatim>\<open>Panic(uint256)\<close> selector as one unsigned integer. The string's
  bytes are taken as its characters.
\<close>

datatype Thrown = TypeError string | DecodeError string | HookError string

definition ERROR_SELECTOR :: bytes where
  "ERROR_SELECTOR = [0x08, 0xc3, 0x79, 0xa0]"

definition PANIC_SELECTOR :: bytes where
  "PANIC_SELECTOR = [0x4e, 0x48, 0x7b, 0x71]"

definition bigEndian :: "bytes \<Rightarrow> nat" where
  "bigEndian bs = foldl (\<lambda>acc b. acc * 256 + unat b) 0 bs"

definition abiDecodeUint256 :: "bytes \<Rightarrow> nat option" where
  "abiDecodeUint256 payload =
     (if length payload < 32 then None else Some (bigEndian (take 32 payload)))"

definition abiDecodeString :: "bytes \<Rightarrow> string option" where
  "abiDecodeString payload =
     (if length payload < 32 then None
      else let off = bigEndian (take 32 payload) in
        if length payload < off + 32 then None
        else let n = bigEndian (take 32 (drop off payload)) in
          if length payload < off + 32 + n then None
          else Some (map (\<lambda>b. char_of (unat b)) (take n (drop (off + 32) payload))))"

text \<open>
  Modelled from the spec: the members of \<^verbatim>\<open>ReturnData\<close> that the source calls on
  the object it builds with \<^verbatim>\<open>new ReturnData(bytes)\<close>. A guard is the spec's "the
  first four bytes match the selector" and looks at nothing else; a decoder is the spec's
  "ABI-decode the remainder". The source calls a guard and its decoder as two calls with
  no \<^verbatim>\<open>try\<close> around them, so a decoder that cannot decode the payload raises:
  the spec's "treat as unrecognized" is a step the source does not take.
\<close>

datatype ReturnData = ReturnData (rd_value: bytes)

definition isErrorReturnData :: "ReturnData \<Rightarrow> bool" where
  "isErrorReturnData rd = (take 4 (rd_value rd) = ERROR_SELECTOR)"

definition decodeError :: "ReturnData \<Rightarrow> Thrown + string" where
  "decodeError rd =
     (if \<not> isErrorReturnData rd then
        Inl (DecodeError ''Expected return data to be a Error(string)'')
      else case abiDecodeString (drop 4 (rd_value rd)) of
             Some reason \<Rightarrow> Inr reason
           | None \<Rightarrow> Inl (DecodeError ''Expected return data to contain a valid string''))"

definition isPanicReturnData :: "ReturnData \<Rightarrow> bool" where
  "isPanicReturnData rd = (take 4 (rd_value rd) = PANIC_SELECTOR)"

definition decodePanic :: "ReturnData \<Rightarrow> Thrown + nat" where
  "decodePanic rd =
     (if \<not> isPanicReturnData rd then
        Inl (DecodeError ''Expected return data to be a Panic(uint256)'')
      else case abiDecodeUint256 (drop 4 (rd_value rd)) of
             Some code \<Rightarrow> Inr code
           | None \<Rightarrow> Inl (DecodeError ''Expected return data to contain a valid uint256''))"

definition isEmpty :: "ReturnData \<Rightarrow> bool" where
  "isEmpty rd = (length (rd_value rd) = 0)"

section \<open>Panic code table\<close>

text \<open>
  Modelled from the spec: \<^verbatim>\<open>panic-errors.js\<close> is not among the sources. Section 4.2 of
  the spec: a fixed table from the canonical codes to English descriptions; an unknown code
  renders as a generic "unknown panic code" message with the code in hexadecimal, and
  never fails.
\<close>

definition panicErrorCodeToReason :: "nat \<Rightarrow> string option" where
  "panicErrorCodeToReason errorCode =
     (if errorCode = 0x01 then Some ''assertion failure''
      else if errorCode = 0x11 then Some ''arithmetic overflow/underflow''
      else if errorCode = 0x12 then Some ''division or modulo by zero''
      else if errorCode = 0x21 then Some ''invalid enum conversion''
      else if errorCode = 0x22 then Some ''invalid encoded storage byte array''
      else if errorCode = 0x31 then Some ''pop on empty array''
      else if errorCode = 0x32 then Some ''out-of-bounds array access''
      else if errorCode = 0x41 then Some ''out-of-memory / oversized allocation''
      else if errorCode = 0x51 then Some ''call to an uninitialized internal function pointer''
      else None)"

definition panicErrorCodeToMessage :: "nat \<Rightarrow> string" where
  "panicErrorCodeToMessage errorCode =
     (case panicErrorCodeToReason errorCode of
        Some reason \<Rightarrow> reason
      | None \<Rightarrow> ''unknown panic code 0x'' @ toStringRadix 16 errorCode)"

section \<open>Trace frames\<close>

text \<open>
  Modelled from the spec: \<^verbatim>\<open>solidity-stack-trace.js\<close>, which declares the entry types
  and the fixed labels, is not among the sources. The labels carry the spec's words
  (section 4.4); each variant below carries the fields the encoder reads from it, and a
  source reference is optional exactly where the encoder tests it against
  \<^verbatim>\<open>undefined\<close>.
\<close>

definition CONSTRUCTOR_FUNCTION_NAME :: string where
  "CONSTRUCTOR_FUNCTION_NAME = ''constructor''"

definition PRECOMPILE_FUNCTION_NAME :: string where
  "PRECOMPILE_FUNCTION_NAME = ''precompile''"

definition UNKNOWN_FUNCTION_NAME :: string where
  "UNKNOWN_FUNCTION_NAME = ''unknown function''"

definition UNRECOGNIZED_CONTRACT_NAME :: string where
  "UNRECOGNIZED_CONTRACT_NAME = ''unrecognized contract''"

definition UNRECOGNIZED_FUNCTION_NAME :: string where
  "UNRECOGNIZED_FUNCTION_NAME = ''unrecognized function''"

record SourceReference =
  sourceName :: string
  contract :: "string option"
  function' :: "string option"
  line :: "nat option"

datatype SolidityStackTraceEntry =
    CALLSTACK_ENTRY SourceReference
  | UNRECOGNIZED_CREATE_CALLSTACK_ENTRY
  | UNRECOGNIZED_CONTRACT_CALLSTACK_ENTRY bytes
  | PRECOMPILE_ERROR nat
  | REVERT_ERROR bytes SourceReference bool
  | PANIC_ERROR nat "SourceReference option"
  | CUSTOM_ERROR string SourceReference
  | FUNCTION_NOT_PAYABLE_ERROR nat SourceReference
  | INVALID_PARAMS_ERROR SourceReference
  | FALLBACK_NOT_PAYABLE_ERROR nat SourceReference
  | FALLBACK_NOT_PAYABLE_AND_NO_RECEIVE_ERROR nat SourceReference
  | UNRECOGNIZED_FUNCTION_WITHOUT_FALLBACK_ERROR SourceReference
  | MISSING_FALLBACK_OR_RECEIVE_ERROR SourceReference
  | RETURNDATA_SIZE_ERROR SourceReference
  | NONCONTRACT_ACCOUNT_CALLED_ERROR SourceReference
  | CALL_FAILED_ERROR SourceReference
  | DIRECT_LIBRARY_CALL_ERROR SourceReference
  | UNRECOGNIZED_CREATE_ERROR bytes bool
  | UNRECOGNIZED_CONTRACT_ERROR bytes bytes bool
  | OTHER_EXECUTION_ERROR "SourceReference option"
  | UNMAPPED_SOLC_0_6_3_REVERT_ERROR "SourceReference option"
  | CONTRACT_TOO_LARGE_ERROR "SourceReference option"
  | INTERNAL_FUNCTION_CALLSTACK_ENTRY nat SourceReference
  | CONTRACT_CALL_RUN_OUT_OF_GAS_ERROR "SourceReference option"

type_synonym SolidityStackTrace = "SolidityStackTraceEntry list"

text \<open>
  Argument order of the variants with several fields:
  \<^verbatim>\<open>REVERT_ERROR returnData sourceReference isInvalidOpcodeError\<close>,
  \<^verbatim>\<open>PANIC_ERROR errorCode sourceReference\<close>, \<^verbatim>\<open>CUSTOM_ERROR message sourceReference\<close>,
  \<^verbatim>\<open>*_NOT_PAYABLE_* value sourceReference\<close>,
  \<^verbatim>\<open>UNRECOGNIZED_CREATE_ERROR returnData isInvalidOpcodeError\<close>,
  \<^verbatim>\<open>UNRECOGNIZED_CONTRACT_ERROR address returnData isInvalidOpcodeError\<close>,
  \<^verbatim>\<open>INTERNAL_FUNCTION_CALLSTACK_ENTRY pc sourceReference\<close>.
\<close>

section \<open>Synthetic call sites\<close>

text \<open>
  The class \<^verbatim>\<open>SolidityCallSite\<close>: four private fields, each possibly \<^verbatim>\<open>undefined\<close>.
  An accessor that may return \<^verbatim>\<open>null\<close> returns an option, \<open>None\<close> standing for
  \<^verbatim>\<open>null\<close>.
\<close>

record SolidityCallSite =
  cs_sourceName :: "string option"
  cs_contract :: "string option"
  cs_functionName :: "string option"
  cs_line :: "nat option"

definition getFileName :: "SolidityCallSite \<Rightarrow> string" where
  "getFileName c = (case cs_sourceName c of Some n \<Rightarrow> n | None \<Rightarrow> ''unknown'')"

definition getFunctionName :: "SolidityCallSite \<Rightarrow> string option" where
  "getFunctionName c = (if cs_contract c = None then cs_functionName c else None)"

definition getLineNumber :: "SolidityCallSite \<Rightarrow> nat option" where
  "getLineNumber c = (if cs_line c \<noteq> None then cs_line c else None)"

definition getMethodName :: "SolidityCallSite \<Rightarrow> string option" where
  "getMethodName c = (if cs_contract c \<noteq> None then cs_functionName c else None)"

definition getTypeName :: "SolidityCallSite \<Rightarrow> string option" where
  "getTypeName c = cs_contract c"

definition getScriptNameOrSourceURL :: "SolidityCallSite \<Rightarrow> string" where
  "getScriptNameOrSourceURL c = ''''"

definition sourceReferenceToSolidityCallsite :: "SourceReference \<Rightarrow> SolidityCallSite" where
  "sourceReferenceToSolidityCallsite sourceReference =
     \<lparr> cs_sourceName = Some (sourceName sourceReference),
       cs_contract = contract sourceReference,
       cs_functionName =
         Some (case function' sourceReference of
                 Some f \<Rightarrow> f
               | None \<Rightarrow> UNKNOWN_FUNCTION_NAME),
       cs_line = line sourceReference \<rparr>"

fun encodeStackTraceEntry :: "SolidityStackTraceEntry \<Rightarrow> SolidityCallSite" where
  "encodeStackTraceEntry (UNRECOGNIZED_FUNCTION_WITHOUT_FALLBACK_ERROR sr) =
     sourceReferenceToSolidityCallsite (sr\<lparr>function' := Some UNRECOGNIZED_FUNCTION_NAME\<rparr>)"
| "encodeStackTraceEntry (MISSING_FALLBACK_OR_RECEIVE_ERROR sr) =
     sourceReferenceToSolidityCallsite (sr\<lparr>function' := Some UNRECOGNIZED_FUNCTION_NAME\<rparr>)"
| "encodeStackTraceEntry (CALLSTACK_ENTRY sr) = sourceReferenceToSolidityCallsite sr"
| "encodeStackTraceEntry (REVERT_ERROR returnData sr isInvalidOpcodeError) =
     sourceReferenceToSolidityCallsite sr"
| "encodeStackTraceEntry (CUSTOM_ERROR msg sr) = sourceReferenceToSolidityCallsite sr"
| "encodeStackTraceEntry (FUNCTION_NOT_PAYABLE_ERROR amount sr) =
     sourceReferenceToSolidityCallsite sr"
| "encodeStackTraceEntry (INVALID_PARAMS_ERROR sr) = sourceReferenceToSolidityCallsite sr"
| "encodeStackTraceEntry (FALLBACK_NOT_PAYABLE_ERROR amount sr) =
     sourceReferenceToSolidityCallsite sr"
| "encodeStackTraceEntry (FALLBACK_NOT_PAYABLE_AND_NO_RECEIVE_ERROR amount sr) =
     sourceReferenceToSolidityCallsite sr"
| "encodeStackTraceEntry (RETURNDATA_SIZE_ERROR sr) = sourceReferenceToSolidityCallsite sr"
| "encodeStackTraceEntry (NONCONTRACT_ACCOUNT_CALLED_ERROR sr) =
     sourceReferenceToSolidityCallsite sr"
| "encodeStackTraceEntry (CALL_FAILED_ERROR sr) = sourceReferenceToSolidityCallsite sr"
| "encodeStackTraceEntry (DIRECT_LIBRARY_CALL_ERROR sr) = sourceReferenceToSolidityCallsite sr"
| "encodeStackTraceEntry UNRECOGNIZED_CREATE_CALLSTACK_ENTRY =
     \<lparr> cs_sourceName = None, cs_contract = Some UNRECOGNIZED_CONTRACT_NAME,
       cs_functionName = Some CONSTRUCTOR_FUNCTION_NAME, cs_line = None \<rparr>"
| "encodeStackTraceEntry (UNRECOGNIZED_CONTRACT_CALLSTACK_ENTRY address) =
     \<lparr> cs_sourceName = Some (bytesToHexString address),
       cs_contract = Some UNRECOGNIZED_CONTRACT_NAME,
       cs_functionName = Some UNKNOWN_FUNCTION_NAME, cs_line = None \<rparr>"
| "encodeStackTraceEntry (PRECOMPILE_ERROR precompile) =
     \<lparr> cs_sourceName = None,
       cs_contract = Some (''<PrecompileContract '' @ toStringRadix 10 precompile @ ''>''),
       cs_functionName = Some PRECOMPILE_FUNCTION_NAME, cs_line = None \<rparr>"
| "encodeStackTraceEntry (UNRECOGNIZED_CREATE_ERROR returnData isInvalidOpcodeError) =
     \<lparr> cs_sourceName = None, cs_contract = Some UNRECOGNIZED_CONTRACT_NAME,
       cs_functionName = Some CONSTRUCTOR_FUNCTION_NAME, cs_line = None \<rparr>"
| "encodeStackTraceEntry (UNRECOGNIZED_CONTRACT_ERROR address returnData isInvalidOpcodeError) =
     \<lparr> cs_sourceName = Some (bytesToHexString address),
       cs_contract = Some UNRECOGNIZED_CONTRACT_NAME,
       cs_functionName = Some UNKNOWN_FUNCTION_NAME, cs_line = None \<rparr>"
| "encodeStackTraceEntry (INTERNAL_FUNCTION_CALLSTACK_ENTRY pc sr) =
     \<lparr> cs_sourceName = Some (sourceName sr), cs_contract = contract sr,
       cs_functionName = Some (''internal@'' @ toStringRadix 10 pc), cs_line = None \<rparr>"
| "encodeStackTraceEntry (CONTRACT_CALL_RUN_OUT_OF_GAS_ERROR sro) =
     (case sro of
        Some sr \<Rightarrow> sourceReferenceToSolidityCallsite sr
      | None \<Rightarrow>
          \<lparr> cs_sourceName = None, cs_contract = Some UNRECOGNIZED_CONTRACT_NAME,
            cs_functionName = Some UNKNOWN_FUNCTION_NAME, cs_line = None \<rparr>)"
| "encodeStackTraceEntry (OTHER_EXECUTION_ERROR sro) =
     (case sro of
        None \<Rightarrow>
          \<lparr> cs_sourceName = None, cs_contract = Some UNRECOGNIZED_CONTRACT_NAME,
            cs_functionName = Some UNKNOWN_FUNCTION_NAME, cs_line = None \<rparr>
      | Some sr \<Rightarrow> sourceReferenceToSolidityCallsite sr)"
| "encodeStackTraceEntry (CONTRACT_TOO_LARGE_ERROR sro) =
     (case sro of
        None \<Rightarrow>
          \<lparr> cs_sourceName = None, cs_contract = Some UNRECOGNIZED_CONTRACT_NAME,
            cs_functionName = Some UNKNOWN_FUNCTION_NAME, cs_line = None \<rparr>
      | Some sr \<Rightarrow> sourceReferenceToSolidityCallsite sr)"
| "encodeStackTraceEntry (PANIC_ERROR errorCode sro) =
     (case sro of
        None \<Rightarrow>
          \<lparr> cs_sourceName = None, cs_contract = Some UNRECOGNIZED_CONTRACT_NAME,
            cs_functionName = Some UNKNOWN_FUNCTION_NAME, cs_line = None \<rparr>
      | Some sr \<Rightarrow> sourceReferenceToSolidityCallsite sr)"
| "encodeStackTraceEntry (UNMAPPED_SOLC_0_6_3_REVERT_ERROR sro) =
     (case sro of
        None \<Rightarrow>
          \<lparr> cs_sourceName = None, cs_contract = Some UNRECOGNIZED_CONTRACT_NAME,
            cs_functionName = Some UNKNOWN_FUNCTION_NAME, cs_line = None \<rparr>
      | Some sr \<Rightarrow> sourceReferenceToSolidityCallsite sr)"

section \<open>Message synthesis\<close>

text \<open>
  \<^verbatim>\<open>getMessageFromLastStackTraceEntry\<close>. Its caller passes
  \<^verbatim>\<open>stackTrace[stackTrace.length - 1]\<close>, which is \<^verbatim>\<open>undefined\<close> for an empty trace:
  the argument is an option, and reading \<^verbatim>\<open>.type\<close> of \<^verbatim>\<open>undefined\<close> throws a
  \<^verbatim>\<open>TypeError\<close>. The switch is not exhaustive: a variant without a case leaves it and
  the function returns \<^verbatim>\<open>undefined\<close> (the last equation).
\<close>

fun getMessageFromLastStackTraceEntry ::
  "SolidityStackTraceEntry option \<Rightarrow> Thrown + string option" where
  "getMessageFromLastStackTraceEntry None =
     Inl (TypeError ''Cannot read properties of undefined (reading type)'')"
| "getMessageFromLastStackTraceEntry (Some (PRECOMPILE_ERROR precompile)) =
     Inr (Some (''Transaction reverted: call to precompile '' @ toStringRadix 10 precompile
                @ '' failed''))"
| "getMessageFromLastStackTraceEntry (Some (FUNCTION_NOT_PAYABLE_ERROR amount sr)) =
     Inr (Some (''Transaction reverted: non-payable function was called with value ''
                @ toStringRadix 10 amount))"
| "getMessageFromLastStackTraceEntry (Some (INVALID_PARAMS_ERROR sr)) =
     Inr (Some ''Transaction reverted: function was called with incorrect parameters'')"
| "getMessageFromLastStackTraceEntry (Some (FALLBACK_NOT_PAYABLE_ERROR amount sr)) =
     Inr (Some (''Transaction reverted: fallback function is not payable and was called with value ''
                @ toStringRadix 10 amount))"
| "getMessageFromLastStackTraceEntry (Some (FALLBACK_NOT_PAYABLE_AND_NO_RECEIVE_ERROR amount sr)) =
     Inr (Some (''Transaction reverted: there's no receive function, fallback function is not payable and was called with value ''
                @ toStringRadix 10 amount))"
| "getMessageFromLastStackTraceEntry (Some (UNRECOGNIZED_FUNCTION_WITHOUT_FALLBACK_ERROR sr)) =
     Inr (Some ''Transaction reverted: function selector was not recognized and there's no fallback function'')"
| "getMessageFromLastStackTraceEntry (Some (MISSING_FALLBACK_OR_RECEIVE_ERROR sr)) =
     Inr (Some ''Transaction reverted: function selector was not recognized and there's no fallback nor receive function'')"
| "getMessageFromLastStackTraceEntry (Some (RETURNDATA_SIZE_ERROR sr)) =
     Inr (Some ''Transaction reverted: function returned an unexpected amount of data'')"
| "getMessageFromLastStackTraceEntry (Some (NONCONTRACT_ACCOUNT_CALLED_ERROR sr)) =
     Inr (Some ''Transaction reverted: function call to a non-contract account'')"
| "getMessageFromLastStackTraceEntry (Some (CALL_FAILED_ERROR sr)) =
     Inr (Some ''Transaction reverted: function call failed to execute'')"
| "getMessageFromLastStackTraceEntry (Some (DIRECT_LIBRARY_CALL_ERROR sr)) =
     Inr (Some ''Transaction reverted: library was called directly'')"
| "getMessageFromLastStackTraceEntry (Some (UNRECOGNIZED_CREATE_ERROR bs isInvalidOpcodeError)) =
     (let returnData = ReturnData bs in
      if isErrorReturnData returnData then
        (case decodeError returnData of
           Inl e \<Rightarrow> Inl e
         | Inr reason \<Rightarrow>
             Inr (Some (''VM Exception while processing transaction: reverted with reason string ''
                        @ [CHR 0x27] @ reason @ [CHR 0x27])))
      else if isPanicReturnData returnData then
        (case decodePanic returnData of
           Inl e \<Rightarrow> Inl e
         | Inr code \<Rightarrow>
             Inr (Some (''VM Exception while processing transaction: ''
                        @ panicErrorCodeToMessage code)))
      else if \<not> isEmpty returnData then
        Inr (Some (''VM Exception while processing transaction: reverted with an unrecognized custom error (return data: 0x''
                   @ bufferToHex (rd_value returnData) @ '')''))
      else if isInvalidOpcodeError then
        Inr (Some ''VM Exception while processing transaction: invalid opcode'')
      else Inr (Some ''Transaction reverted without a reason string''))"
| "getMessageFromLastStackTraceEntry
     (Some (UNRECOGNIZED_CONTRACT_ERROR address bs isInvalidOpcodeError)) =
     (let returnData = ReturnData bs in
      if isErrorReturnData returnData then
        (case decodeError returnData of
           Inl e \<Rightarrow> Inl e
         | Inr reason \<Rightarrow>
             Inr (Some (''VM Exception while processing transaction: reverted with reason string ''
                        @ [CHR 0x27] @ reason @ [CHR 0x27])))
      else if isPanicReturnData returnData then
        (case decodePanic returnData of
           Inl e \<Rightarrow> Inl e
         | Inr code \<Rightarrow>
             Inr (Some (''VM Exception while processing transaction: ''
                        @ panicErrorCodeToMessage code)))
      else if \<not> isEmpty returnData then
        Inr (Some (''VM Exception while processing transaction: reverted with an unrecognized custom error (return data: 0x''
                   @ bufferToHex (rd_value returnData) @ '')''))
      else if isInvalidOpcodeError then
        Inr (Some ''VM Exception while processing transaction: invalid opcode'')
      else Inr (Some ''Transaction reverted without a reason string''))"
| "getMessageFromLastStackTraceEntry (Some (REVERT_ERROR bs sr isInvalidOpcodeError)) =
     (let returnData = ReturnData bs in
      if isErrorReturnData returnData then
        (case decodeError returnData of
           Inl e \<Rightarrow> Inl e
         | Inr reason \<Rightarrow>
             Inr (Some (''VM Exception while processing transaction: reverted with reason string ''
                        @ [CHR 0x27] @ reason @ [CHR 0x27])))
      else if isInvalidOpcodeError then
        Inr (Some ''VM Exception while processing transaction: invalid opcode'')
      else Inr (Some ''Transaction reverted without a reason string''))"
| "getMessageFromLastStackTraceEntry (Some (PANIC_ERROR errorCode sro)) =
     Inr (Some (''VM Exception while processing transaction: ''
                @ panicErrorCodeToMessage errorCode))"
| "getMessageFromLastStackTraceEntry (Some (CUSTOM_ERROR msg sr)) =
     Inr (Some (''VM Exception while processing transaction: '' @ msg))"
| "getMessageFromLastStackTraceEntry (Some (OTHER_EXECUTION_ERROR sro)) =
     Inr (Some ''Transaction reverted and Hardhat couldn't infer the reason.'')"
| "getMessageFromLastStackTraceEntry (Some (UNMAPPED_SOLC_0_6_3_REVERT_ERROR sro)) =
     Inr (Some ''Transaction reverted without a reason string and without a valid sourcemap provided by the compiler. Some line numbers may be off. We strongly recommend upgrading solc and always using revert reasons.'')"
| "getMessageFromLastStackTraceEntry (Some (CONTRACT_TOO_LARGE_ERROR sro)) =
     Inr (Some ''Transaction reverted: trying to deploy a contract whose code is too large'')"
| "getMessageFromLastStackTraceEntry (Some (CONTRACT_CALL_RUN_OUT_OF_GAS_ERROR sro)) =
     Inr (Some ''Transaction reverted: contract call run out of gas and made the transaction revert'')"
| "getMessageFromLastStackTraceEntry (Some entry) = Inr None"

section \<open>Stack-trace encoder\<close>

text \<open>
  \<^verbatim>\<open>Error.prepareStackTrace\<close> is process-wide state: a hook that renders an error's
  stack from its structured frames, or \<^verbatim>\<open>undefined\<close>. A hook is a function that returns
  the rendering or throws. The frames are native call sites and synthetic ones.
\<close>

record SolidityError =
  message :: string
  stackTrace :: SolidityStackTrace
  stack :: "string option"

datatype CallSite = NativeCallSite string | SolidityFrame SolidityCallSite

type_synonym PrepareStackTrace = "SolidityError \<Rightarrow> CallSite list \<Rightarrow> Thrown + string"

record Process =
  prepareStackTrace :: "PrepareStackTrace option"

text \<open>
  The hook the encoder installs (the arrow function of lines 29 to 48). It replaces the
  frames by \<^verbatim>\<open>previousStack\<close> when that is given and drops the first frame otherwise,
  puts each entry's call site in front (\<^verbatim>\<open>unshift\<close>), and calls the hook that was
  installed before; calling \<^verbatim>\<open>undefined\<close> throws a \<^verbatim>\<open>TypeError\<close>.
\<close>

definition temporaryPrepareStackTrace ::
  "CallSite list option \<Rightarrow> SolidityStackTrace \<Rightarrow> PrepareStackTrace option \<Rightarrow> PrepareStackTrace" where
  "temporaryPrepareStackTrace previousStack trace previousPrepareStackTrace =
     (\<lambda>error stack0.
        let stack1 = (case previousStack of Some ps \<Rightarrow> ps | None \<Rightarrow> drop 1 stack0);
            stack2 = fold (\<lambda>entry st. SolidityFrame (encodeStackTraceEntry entry) # st) trace stack1
        in case previousPrepareStackTrace of
             None \<Rightarrow> Inl (TypeError ''previousPrepareStackTrace is not a function'')
           | Some previous \<Rightarrow> previous error stack2)"

definition lastEntry :: "SolidityStackTrace \<Rightarrow> SolidityStackTraceEntry option" where
  "lastEntry trace = (if trace = [] then None else Some (last trace))"

text \<open>
  \<^verbatim>\<open>encodeSolidityStackTrace\<close>, with the process state passed in and returned, and with
  the frames the platform captured when the error was constructed as \<open>nativeStack\<close>.
  A statement that throws ends the call there, with the state as it is at that point:
  the source has no \<^verbatim>\<open>try\<close>. Reading \<^verbatim>\<open>solidityError.stack\<close> (line 60) runs the
  installed hook.
\<close>

definition encodeSolidityStackTrace ::
  "string \<Rightarrow> SolidityStackTrace \<Rightarrow> CallSite list option \<Rightarrow> CallSite list \<Rightarrow> Process
     \<Rightarrow> (Thrown + SolidityError) \<times> Process" where
  "encodeSolidityStackTrace fallbackMessage trace previousStack nativeStack p =
     (let previousPrepareStackTrace = prepareStackTrace p;
          hook = temporaryPrepareStackTrace previousStack trace previousPrepareStackTrace;
          p1 = p\<lparr>prepareStackTrace := Some hook\<rparr>
      in case getMessageFromLastStackTraceEntry (lastEntry trace) of
           Inl e \<Rightarrow> (Inl e, p1)
         | Inr msg \<Rightarrow>
             (let solidityError =
                    \<lparr> message = (case msg of Some m \<Rightarrow> m | None \<Rightarrow> fallbackMessage),
                      stackTrace = trace, stack = None \<rparr>
              in case hook solidityError nativeStack of
                   Inl e \<Rightarrow> (Inl e, p1)
                 | Inr rendered \<Rightarrow>
                     (Inr (solidityError\<lparr>stack := Some rendered\<rparr>),
                      p1\<lparr>prepareStackTrace := previousPrepareStackTrace\<rparr>)))"

section \<open>Build results\<close>

text \<open>
  Modelled from the spec: \<^verbatim>\<open>types/solidity/build-system.js\<close> is not among the sources.
  A file's build result carries a type tag, and the fields the aggregator reads from every
  successful result (\<^verbatim>\<open>buildId\<close>, \<^verbatim>\<open>contractArtifactsGenerated\<close>); a job-creation
  failure carries the property \<^verbatim>\<open>reason\<close> the validator tests for, and the fields it
  copies. The results of a build are a \<^verbatim>\<open>Map\<close>, which iterates in insertion order: an
  association list.
\<close>

datatype FileBuildResultType = CACHE_HIT | BUILD_SUCCESS | BUILD_FAILURE

record FileBuildResult =
  type :: FileBuildResultType
  buildId :: string
  contractArtifactsGenerated :: "string list"

record CompilationJobCreationError =
  reason :: string
  formattedReason :: string
  rootFilePath :: string
  buildProfile :: string

datatype SolidityBuildResults =
    FileResults "(string \<times> FileBuildResult) list"
  | JobCreationFailed CompilationJobCreationError

text \<open>
  The two errors of the validator: the descriptor, and for the job-creation error the
  message arguments \<^verbatim>\<open>{reason, rootFilePath, buildProfile}\<close>.
\<close>

datatype HardhatError =
    COMPILATION_JOB_CREATION_ERROR (arg_reason: string) (arg_rootFilePath: string)
      (arg_buildProfile: string)
  | BUILD_FAILED

text \<open>
  \<^verbatim>\<open>throwIfSolidityBuildFailed\<close> is an assertion function: it returns nothing and
  narrows the type of its argument. The model returns the map it was given, so that a
  normal return is \<open>Inr\<close> of the narrowed results.
\<close>

definition throwIfSolidityBuildFailed ::
  "SolidityBuildResults \<Rightarrow> HardhatError + (string \<times> FileBuildResult) list" where
  "throwIfSolidityBuildFailed results =
     (case results of
        JobCreationFailed e \<Rightarrow>
          Inl (COMPILATION_JOB_CREATION_ERROR (formattedReason e) (rootFilePath e) (buildProfile e))
      | FileResults m \<Rightarrow>
          (let sucessful =
                 list_all (\<lambda>r. type r = CACHE_HIT \<or> type r = BUILD_SUCCESS) (map snd m)
           in if \<not> sucessful then Inl BUILD_FAILED else Inr m))"

section \<open>Artifacts\<close>

text \<open>
  The artifact and build-info files as \<^verbatim>\<open>readJsonFile\<close> returns them, and the records
  the aggregator builds. The ABI is a JSON value of some type \<open>'abi\<close>.
\<close>

record 'abi HardhatArtifact =
  artifact_contractName :: string
  artifact_abi :: 'abi
  artifact_bytecode :: string
  artifact_deployedBytecode :: string

record BuildInfo =
  buildInfo_solcVersion :: string

record EdrArtifactId =
  name :: string
  solcVersion :: string
  source :: string

record EdrContract =
  abi :: string
  bytecode :: string
  deployedBytecode :: string

record EdrArtifact =
  artifact_id :: EdrArtifactId
  artifact_contract :: EdrContract

datatype IOError = IOError string

text \<open>
  The platform's part is taken as parameters: \<open>readArtifact\<close> and \<open>readBuildInfo\<close> are
  \<^verbatim>\<open>readJsonFile\<close> at its two types (a read returns the document or fails), \<open>join\<close> is
  \<^verbatim>\<open>path.join\<close> and \<open>stringify\<close> is \<^verbatim>\<open>JSON.stringify\<close>.
\<close>

record 'abi Platform =
  readArtifact :: "string \<Rightarrow> IOError + 'abi HardhatArtifact"
  readBuildInfo :: "string \<Rightarrow> IOError + BuildInfo"
  join :: "string list \<Rightarrow> string"
  stringify :: "'abi \<Rightarrow> string"

text \<open>
  The inner loop of \<^verbatim>\<open>getArtifacts\<close>, over the artifact paths of one result;
  \<open>artifacts\<close> is the array the source pushes to. A failed read rejects the promise and
  ends the call.
\<close>

fun artifactsOfResult ::
  "'abi Platform \<Rightarrow> string \<Rightarrow> string \<Rightarrow> FileBuildResult \<Rightarrow> string list \<Rightarrow> EdrArtifact list
     \<Rightarrow> IOError + EdrArtifact list" where
  "artifactsOfResult pf artifactsRootPath src result [] artifacts = Inr artifacts"
| "artifactsOfResult pf artifactsRootPath src result (artifactPath # rest) artifacts =
     (case readArtifact pf artifactPath of
        Inl e \<Rightarrow> Inl e
      | Inr artifact \<Rightarrow>
          (case readBuildInfo pf
                  (join pf [artifactsRootPath, ''build-info'', buildId result @ ''.json'']) of
             Inl e \<Rightarrow> Inl e
           | Inr buildInfo \<Rightarrow>
               artifactsOfResult pf artifactsRootPath src result rest
                 (artifacts @
                    [\<lparr> artifact_id =
                         \<lparr> name = artifact_contractName artifact,
                           solcVersion = buildInfo_solcVersion buildInfo,
                           source = src \<rparr>,
                       artifact_contract =
                         \<lparr> abi = stringify pf (artifact_abi artifact),
                           bytecode = artifact_bytecode artifact,
                           deployedBytecode = artifact_deployedBytecode artifact \<rparr> \<rparr>])))"

text \<open>The outer loop, over the entries of the results map.\<close>

fun artifactsOfResults ::
  "'abi Platform \<Rightarrow> string \<Rightarrow> (string \<times> FileBuildResult) list \<Rightarrow> EdrArtifact list
     \<Rightarrow> IOError + EdrArtifact list" where
  "artifactsOfResults pf artifactsRootPath [] artifacts = Inr artifacts"
| "artifactsOfResults pf artifactsRootPath ((src, result) # rest) artifacts =
     (case artifactsOfResult pf artifactsRootPath src result
             (contractArtifactsGenerated result) artifacts of
        Inl e \<Rightarrow> Inl e
      | Inr artifacts' \<Rightarrow> artifactsOfResults pf artifactsRootPath rest artifacts')"

definition getArtifacts ::
  "'abi Platform \<Rightarrow> (string \<times> FileBuildResult) list \<Rightarrow> string \<Rightarrow> IOError + EdrArtifact list" where
  "getArtifacts pf results artifactsRootPath =
     artifactsOfResults pf artifactsRootPath results []"

section \<open>Test-suite selection\<close>

text \<open>\<^verbatim>\<open>String.prototype.endsWith\<close>.\<close>

definition endsWith :: "string \<Rightarrow> string \<Rightarrow> bool" where
  "endsWith s suffix =
     (length suffix \<le> length s \<and> drop (length s - length suffix) s = suffix)"

text \<open>
  \<^verbatim>\<open>getTestSuiteIds\<close>; \<open>relative\<close> is \<^verbatim>\<open>path.relative\<close>, a parameter, and
  \<^verbatim>\<open>includes\<close> is list membership.
\<close>

definition getTestSuiteIds ::
  "(string \<Rightarrow> string \<Rightarrow> string) \<Rightarrow> EdrArtifact list \<Rightarrow> string list \<Rightarrow> string
     \<Rightarrow> EdrArtifactId list" where
  "getTestSuiteIds relative artifacts rootFilePaths projectRoot =
     (let testSources =
            map (\<lambda>p. relative projectRoot p) (filter (\<lambda>p. endsWith p ''.t.sol'') rootFilePaths)
      in filter (\<lambda>i. source i \<in> set testSources) (map artifact_id artifacts))"

section \<open>Vocabulary of the properties\<close>

text \<open>
  The classifier of section 4.1 of the spec, in its words: under a matched selector the
  decoded string or code; a sequence of length zero is empty; everything else, and every
  payload that fails to decode, is unrecognized and keeps its bytes. The source does not
  call it: the properties of the messages are stated against it.
\<close>

datatype ReturnDataKind =
    EncodedError string
  | EncodedPanic nat
  | Empty
  | Unrecognized bytes

definition classify :: "bytes \<Rightarrow> ReturnDataKind" where
  "classify bs =
     (if take 4 bs = ERROR_SELECTOR then
        (case abiDecodeString (drop 4 bs) of
           Some r \<Rightarrow> EncodedError r
         | None \<Rightarrow> Unrecognized bs)
      else if take 4 bs = PANIC_SELECTOR then
        (case abiDecodeUint256 (drop 4 bs) of
           Some c \<Rightarrow> EncodedPanic c
         | None \<Rightarrow> Unrecognized bs)
      else if length bs = 0 then Empty
      else Unrecognized bs)"

text \<open>Return data that carries a selector and a payload that does not decode under it.\<close>

definition malformedErrorPayload :: "bytes \<Rightarrow> bool" where
  "malformedErrorPayload bs =
     (take 4 bs = ERROR_SELECTOR \<and> abiDecodeString (drop 4 bs) = None)"

definition malformedPanicPayload :: "bytes \<Rightarrow> bool" where
  "malformedPanicPayload bs =
     (take 4 bs = PANIC_SELECTOR \<and> abiDecodeUint256 (drop 4 bs) = None)"

text \<open>
  The frames whose message is decoded from return data that does not decode: a
  revert-error frame decodes only an error string, the two unrecognized error frames
  decode an error string or a panic code.
\<close>

fun undecodableReturnData :: "SolidityStackTraceEntry \<Rightarrow> bool" where
  "undecodableReturnData (REVERT_ERROR bs sr isInvalidOpcodeError) = malformedErrorPayload bs"
| "undecodableReturnData (UNRECOGNIZED_CREATE_ERROR bs isInvalidOpcodeError) =
     (malformedErrorPayload bs \<or> malformedPanicPayload bs)"
| "undecodableReturnData (UNRECOGNIZED_CONTRACT_ERROR address bs isInvalidOpcodeError) =
     (malformedErrorPayload bs \<or> malformedPanicPayload bs)"
| "undecodableReturnData entry = False"

text \<open>
  The frames the temporary hook hands to the hook installed before: the replacement
  stack, or the native frames without the first, with the call site of every entry put
  in front.
\<close>

definition stackForPreviousHook ::
  "CallSite list option \<Rightarrow> SolidityStackTrace \<Rightarrow> CallSite list \<Rightarrow> CallSite list" where
  "stackForPreviousHook previousStack trace nativeStack =
     fold (\<lambda>entry st. SolidityFrame (encodeStackTraceEntry entry) # st) trace
       (case previousStack of Some ps \<Rightarrow> ps | None \<Rightarrow> drop 1 nativeStack)"

text \<open>
  The record the aggregator is to produce for one artifact path of one result: the
  artifact file's contract name, the compiler version of the build-info file of the
  result's build, the source path, and the contract's ABI (serialized), bytecode and
  deployed bytecode. It is read off the two files, and compared with what
  \<open>getArtifacts\<close> builds.
\<close>

definition artifactRecord ::
  "'abi Platform \<Rightarrow> string \<Rightarrow> string \<Rightarrow> FileBuildResult \<Rightarrow> string \<Rightarrow> EdrArtifact" where
  "artifactRecord pf artifactsRootPath src result artifactPath =
     \<lparr> artifact_id =
         \<lparr> name = artifact_contractName (projr (readArtifact pf artifactPath)),
           solcVersion = buildInfo_solcVersion (projr (readBuildInfo pf
             (join pf [artifactsRootPath, ''build-info'', buildId result @ ''.json'']))),
           source = src \<rparr>,
       artifact_contract =
         \<lparr> abi = stringify pf (artifact_abi (projr (readArtifact pf artifactPath))),
           bytecode = artifact_bytecode (projr (readArtifact pf artifactPath)),
           deployedBytecode = artifact_deployedBytecode (projr (readArtifact pf artifactPath)) \<rparr> \<rparr>"

text \<open>The source reference a frame carries, if it carries one.\<close>

fun carriedSourceReference :: "SolidityStackTraceEntry \<Rightarrow> SourceReference option" where
  "carriedSourceReference (CALLSTACK_ENTRY sr) = Some sr"
| "carriedSourceReference UNRECOGNIZED_CREATE_CALLSTACK_ENTRY = None"
| "carriedSourceReference (UNRECOGNIZED_CONTRACT_CALLSTACK_ENTRY address) = None"
| "carriedSourceReference (PRECOMPILE_ERROR precompile) = None"
| "carriedSourceReference (REVERT_ERROR bs sr isInvalidOpcodeError) = Some sr"
| "carriedSourceReference (PANIC_ERROR errorCode sro) = sro"
| "carriedSourceReference (CUSTOM_ERROR msg sr) = Some sr"
| "carriedSourceReference (FUNCTION_NOT_PAYABLE_ERROR amount sr) = Some sr"
| "carriedSourceReference (INVALID_PARAMS_ERROR sr) = Some sr"
| "carriedSourceReference (FALLBACK_NOT_PAYABLE_ERROR amount sr) = Some sr"
| "carriedSourceReference (FALLBACK_NOT_PAYABLE_AND_NO_RECEIVE_ERROR amount sr) = Some sr"
| "carriedSourceReference (UNRECOGNIZED_FUNCTION_WITHOUT_FALLBACK_ERROR sr) = Some sr"
| "carriedSourceReference (MISSING_FALLBACK_OR_RECEIVE_ERROR sr) = Some sr"
| "carriedSourceReference (RETURNDATA_SIZE_ERROR sr) = Some sr"
| "carriedSourceReference (NONCONTRACT_ACCOUNT_CALLED_ERROR sr) = Some sr"
| "carriedSourceReference (CALL_FAILED_ERROR sr) = Some sr"
| "carriedSourceReference (DIRECT_LIBRARY_CALL_ERROR sr) = Some sr"
| "carriedSourceReference (UNRECOGNIZED_CREATE_ERROR bs isInvalidOpcodeError) = None"
| "carriedSourceReference (UNRECOGNIZED_CONTRACT_ERROR address bs isInvalidOpcodeError) = None"
| "carriedSourceReference (OTHER_EXECUTION_ERROR sro) = sro"
| "carriedSourceReference (UNMAPPED_SOLC_0_6_3_REVERT_ERROR sro) = sro"
| "carriedSourceReference (CONTRACT_TOO_LARGE_ERROR sro) = sro"
| "carriedSourceReference (INTERNAL_FUNCTION_CALLSTACK_ENTRY pc sr) = Some sr"
| "carriedSourceReference (CONTRACT_CALL_RUN_OUT_OF_GAS_ERROR sro) = sro"

text \<open>The internal-call frame, and the two frames of an unrecognized selector.\<close>

fun isInternalFunctionEntry :: "SolidityStackTraceEntry \<Rightarrow> bool" where
  "isInternalFunctionEntry (INTERNAL_FUNCTION_CALLSTACK_ENTRY pc sr) = True"
| "isInternalFunctionEntry entry = False"

fun isUnrecognizedSelectorEntry :: "SolidityStackTraceEntry \<Rightarrow> bool" where
  "isUnrecognizedSelectorEntry (UNRECOGNIZED_FUNCTION_WITHOUT_FALLBACK_ERROR sr) = True"
| "isUnrecognizedSelectorEntry (MISSING_FALLBACK_OR_RECEIVE_ERROR sr) = True"
| "isUnrecognizedSelectorEntry entry = False"

section \<open>Helper lemmas\<close>

lemma getMessage_returns:
  "\<not> undecodableReturnData f \<Longrightarrow> \<exists>m. getMessageFromLastStackTraceEntry (Some f) = Inr m"
  by (cases f)
     (auto simp: Let_def isErrorReturnData_def decodeError_def isPanicReturnData_def
        decodePanic_def malformedErrorPayload_def malformedPanicPayload_def
        split: option.splits)

lemma getMessage_nonempty:
  "getMessageFromLastStackTraceEntry (Some f) = Inr (Some m) \<Longrightarrow> m \<noteq> []"
  by (cases f) (auto simp: Let_def split: sum.splits if_splits)

lemma lastEntry_snoc: "lastEntry (tr @ [f]) = Some f"
  by (simp add: lastEntry_def)

lemma lastEntry_nonempty: "trace \<noteq> [] \<Longrightarrow> lastEntry trace = Some (last trace)"
  by (simp add: lastEntry_def)

lemma selectors_differ: "ERROR_SELECTOR \<noteq> PANIC_SELECTOR"
  by (simp add: ERROR_SELECTOR_def PANIC_SELECTOR_def)

lemma artifactsOfResult_ok:
  "\<forall>p \<in> set paths. (\<exists>a. readArtifact pf p = Inr a) \<and>
       (\<exists>b. readBuildInfo pf (join pf [root, ''build-info'', buildId result @ ''.json'']) = Inr b)
   \<Longrightarrow> artifactsOfResult pf root src result paths acc =
        Inr (acc @ map (artifactRecord pf root src result) paths)"
proof (induction paths arbitrary: acc)
  case Nil
  then show ?case by simp
next
  case (Cons p paths)
  from Cons.prems obtain a b where
    a: "readArtifact pf p = Inr a" and
    b: "readBuildInfo pf (join pf [root, ''build-info'', buildId result @ ''.json'']) = Inr b"
    by auto
  have rest: "\<forall>q \<in> set paths. (\<exists>a. readArtifact pf q = Inr a) \<and>
       (\<exists>b. readBuildInfo pf (join pf [root, ''build-info'', buildId result @ ''.json'']) = Inr b)"
    using Cons.prems by simp
  show ?case
    by (simp add: a b Cons.IH [OF rest] artifactRecord_def)
qed

lemma artifactsOfResults_ok:
  "\<forall>(src, result) \<in> set results. \<forall>p \<in> set (contractArtifactsGenerated result).
       (\<exists>a. readArtifact pf p = Inr a) \<and>
       (\<exists>b. readBuildInfo pf (join pf [root, ''build-info'', buildId result @ ''.json'']) = Inr b)
   \<Longrightarrow> artifactsOfResults pf root results acc =
        Inr (acc @ concat (map (\<lambda>(src, result).
               map (artifactRecord pf root src result) (contractArtifactsGenerated result)) results))"
proof (induction results arbitrary: acc)
  case Nil
  then show ?case by simp
next
  case (Cons sr results)
  obtain src result where sr: "sr = (src, result)" by (cases sr)
  have hd: "\<forall>p \<in> set (contractArtifactsGenerated result).
       (\<exists>a. readArtifact pf p = Inr a) \<and>
       (\<exists>b. readBuildInfo pf (join pf [root, ''build-info'', buildId result @ ''.json'']) = Inr b)"
    using Cons.prems sr by simp
  have tl: "\<forall>(src, result) \<in> set results. \<forall>p \<in> set (contractArtifactsGenerated result).
       (\<exists>a. readArtifact pf p = Inr a) \<and>
       (\<exists>b. readBuildInfo pf (join pf [root, ''build-info'', buildId result @ ''.json'']) = Inr b)"
    using Cons.prems by simp
  show ?case
    by (simp add: sr artifactsOfResult_ok [OF hd] Cons.IH [OF tl])
qed

section \<open>The stack-trace encoder and the rendering hook\<close>

text \<open>
  When the encoder returns, the process state is the one it was called in: line 62
  puts the saved hook back.
\<close>

lemma encodeSolidityStackTrace_restores_on_return:
  "encodeSolidityStackTrace fallbackMessage trace previousStack nativeStack p = (Inr e, p')
   \<Longrightarrow> p' = p"
  by (auto simp: encodeSolidityStackTrace_def Let_def split: sum.splits)

text \<open>
  When the encoder raises, whether in message synthesis or while the stack is rendered,
  the hook it leaves installed is its own temporary hook.
\<close>

lemma encodeSolidityStackTrace_raise_leaves_hook:
  "encodeSolidityStackTrace fallbackMessage trace previousStack nativeStack p = (Inl e, p')
   \<Longrightarrow> prepareStackTrace p' =
         Some (temporaryPrepareStackTrace previousStack trace (prepareStackTrace p))"
  by (auto simp: encodeSolidityStackTrace_def Let_def split: sum.splits)

text \<open>
  Claim C1 says that after every call of the encoder, also one that raises while the
  stack is rendered, the process-wide hook is the hook that was installed before the
  call. The code saves the hook and puts it back on the path that returns, and has no
  \<^verbatim>\<open>try\<close>/\<^verbatim>\<open>finally\<close>: called while no hook is installed (the platform's
  default), the temporary hook calls \<^verbatim>\<open>undefined\<close>, the read of the stack raises a
  \<^verbatim>\<open>TypeError\<close>, and the temporary hook stays installed.
\<close>

theorem encodeSolidityStackTrace_hook_left_installed:
  "fst (encodeSolidityStackTrace ''fallback'' [PRECOMPILE_ERROR 1] None []
          \<lparr>prepareStackTrace = None\<rparr>)
     = Inl (TypeError ''previousPrepareStackTrace is not a function'')
   \<and> prepareStackTrace (snd (encodeSolidityStackTrace ''fallback'' [PRECOMPILE_ERROR 1] None []
          \<lparr>prepareStackTrace = None\<rparr>))
     \<noteq> prepareStackTrace \<lparr>prepareStackTrace = None\<rparr>"
  by (simp add: encodeSolidityStackTrace_def lastEntry_def temporaryPrepareStackTrace_def Let_def)

section \<open>Messages from return data\<close>

text \<open>
  Claim C2, as amended. For a trace whose last frame is an unrecognized-creation or
  unrecognized-contract error frame, and whose return data is not a malformed payload
  under the error or the panic selector, the message follows the classified return
  data in the order of the claim: an encoded error string gives the reason-string
  message, an encoded panic code the panic description, non-empty unrecognized bytes the
  message with their hex dump, empty bytes the invalid-opcode message when the frame's
  flag is set and the no-reason-string message otherwise. For a revert-error frame
  whose return data is not a malformed payload under the error selector, only the
  encoded error string is looked at: every other return data gives the invalid-opcode
  message when the flag is set and the no-reason-string message otherwise.
\<close>

theorem return_data_message_branches:
  "(\<not> malformedErrorPayload bs \<and> \<not> malformedPanicPayload bs \<longrightarrow>
     getMessageFromLastStackTraceEntry
       (lastEntry (tr @ [UNRECOGNIZED_CREATE_ERROR bs isInvalidOpcodeError])) =
     Inr (Some (case classify bs of
        EncodedError r \<Rightarrow>
          ''VM Exception while processing transaction: reverted with reason string ''
            @ [CHR 0x27] @ r @ [CHR 0x27]
      | EncodedPanic c \<Rightarrow> ''VM Exception while processing transaction: '' @ panicErrorCodeToMessage c
      | Unrecognized b \<Rightarrow>
          ''VM Exception while processing transaction: reverted with an unrecognized custom error (return data: 0x''
            @ bufferToHex b @ '')''
      | Empty \<Rightarrow>
          if isInvalidOpcodeError then ''VM Exception while processing transaction: invalid opcode''
          else ''Transaction reverted without a reason string'')))
   \<and> (\<not> malformedErrorPayload bs \<and> \<not> malformedPanicPayload bs \<longrightarrow>
     getMessageFromLastStackTraceEntry
       (lastEntry (tr @ [UNRECOGNIZED_CONTRACT_ERROR addr bs isInvalidOpcodeError])) =
     Inr (Some (case classify bs of
        EncodedError r \<Rightarrow>
          ''VM Exception while processing transaction: reverted with reason string ''
            @ [CHR 0x27] @ r @ [CHR 0x27]
      | EncodedPanic c \<Rightarrow> ''VM Exception while processing transaction: '' @ panicErrorCodeToMessage c
      | Unrecognized b \<Rightarrow>
          ''VM Exception while processing transaction: reverted with an unrecognized custom error (return data: 0x''
            @ bufferToHex b @ '')''
      | Empty \<Rightarrow>
          if isInvalidOpcodeError then ''VM Exception while processing transaction: invalid opcode''
          else ''Transaction reverted without a reason string'')))
   \<and> (\<not> malformedErrorPayload bs \<longrightarrow>
     getMessageFromLastStackTraceEntry (lastEntry (tr @ [REVERT_ERROR bs sr isInvalidOpcodeError])) =
     Inr (Some (case classify bs of
        EncodedError r \<Rightarrow>
          ''VM Exception while processing transaction: reverted with reason string ''
            @ [CHR 0x27] @ r @ [CHR 0x27]
      | _ \<Rightarrow>
          if isInvalidOpcodeError then ''VM Exception while processing transaction: invalid opcode''
          else ''Transaction reverted without a reason string'')))"
proof -
  have ne: "take 4 bs = ERROR_SELECTOR \<Longrightarrow> bs \<noteq> []" "take 4 bs = PANIC_SELECTOR \<Longrightarrow> bs \<noteq> []"
    by (auto simp: ERROR_SELECTOR_def PANIC_SELECTOR_def)
  show ?thesis
    unfolding lastEntry_snoc
    using ne selectors_differ
    by (auto simp: Let_def isErrorReturnData_def decodeError_def isPanicReturnData_def
          decodePanic_def isEmpty_def classify_def malformedErrorPayload_def
          malformedPanicPayload_def split: option.splits)
qed

text \<open>
  The theorem at three traces: unrecognized bytes \<open>01 02 03\<close> in a creation error,
  empty return data with the invalid-opcode flag in a contract error, and empty return
  data without the flag in a revert error.
\<close>

theorem return_data_message_branches_witness:
  "getMessageFromLastStackTraceEntry (lastEntry ([] @ [UNRECOGNIZED_CREATE_ERROR [1, 2, 3] True])) =
     Inr (Some ''VM Exception while processing transaction: reverted with an unrecognized custom error (return data: 0x010203)'')
   \<and> getMessageFromLastStackTraceEntry (lastEntry ([] @ [UNRECOGNIZED_CONTRACT_ERROR [0xab] [] True])) =
     Inr (Some ''VM Exception while processing transaction: invalid opcode'')
   \<and> getMessageFromLastStackTraceEntry (lastEntry ([] @ [REVERT_ERROR []
         \<lparr>sourceName = ''A.sol'', contract = Some ''A'', function' = Some ''f'', line = Some 10\<rparr> False])) =
     Inr (Some ''Transaction reverted without a reason string'')"
proof -
  have a: "\<not> malformedErrorPayload [1, 2, 3] \<and> \<not> malformedPanicPayload [1, 2, 3]"
    by (simp add: malformedErrorPayload_def malformedPanicPayload_def ERROR_SELECTOR_def
          PANIC_SELECTOR_def)
  have b: "\<not> malformedErrorPayload [] \<and> \<not> malformedPanicPayload []"
    by (simp add: malformedErrorPayload_def malformedPanicPayload_def ERROR_SELECTOR_def
          PANIC_SELECTOR_def)
  have ca: "classify [1, 2, 3] = Unrecognized [1, 2, 3]" and cb: "classify [] = Empty"
    by (simp_all add: classify_def ERROR_SELECTOR_def PANIC_SELECTOR_def)
  show ?thesis
    using a b
      return_data_message_branches [of "[1, 2, 3]" "[]" True]
      return_data_message_branches [of "[]" "[]" True "[0xab]"]
      return_data_message_branches [of "[]" "[]" False _
        "\<lparr>sourceName = ''A.sol'', contract = Some ''A'', function' = Some ''f'', line = Some 10\<rparr>"]
    by (simp add: ca cb bufferToHex_def byteToHex_def digitChar_def)
qed

text \<open>
  Claim C2 as stated fails for a revert-error frame: with the non-empty unrecognized
  return data \<open>01 02 03\<close> and the flag unset, the message is the no-reason-string
  message and holds no hex dump.
\<close>

theorem revert_error_unrecognized_bytes_counterexample:
  "getMessageFromLastStackTraceEntry (lastEntry [REVERT_ERROR [1, 2, 3]
       \<lparr>sourceName = ''A.sol'', contract = Some ''A'', function' = Some ''f'', line = Some 10\<rparr> False])
     = Inr (Some ''Transaction reverted without a reason string'')
   \<and> classify [1, 2, 3] = Unrecognized [1, 2, 3]"
  by (simp add: lastEntry_def isErrorReturnData_def classify_def ERROR_SELECTOR_def
        PANIC_SELECTOR_def Let_def)

section \<open>The message of the encoded error\<close>

text \<open>
  Claim C5, as amended. For every non-empty trace, whenever the encoder returns an
  error, message synthesis on the last frame has returned, and the error's message is
  the synthesized message when there is one and the fallback message when there is
  none; it is not empty when the fallback message is not empty. The encoder returns
  whenever message synthesis on the last frame returns and the hook installed before
  the call exists and renders this error's stack without raising.
\<close>

theorem encodeSolidityStackTrace_message:
  assumes "trace \<noteq> []"
  shows "(\<forall>e p'. encodeSolidityStackTrace fallbackMessage trace previousStack nativeStack p = (Inr e, p')
            \<longrightarrow> (\<exists>m. getMessageFromLastStackTraceEntry (Some (last trace)) = Inr m \<and>
                   message e = (case m of Some s \<Rightarrow> s | None \<Rightarrow> fallbackMessage) \<and>
                   (fallbackMessage \<noteq> [] \<longrightarrow> message e \<noteq> [])))
       \<and> (\<forall>m h r. getMessageFromLastStackTraceEntry (Some (last trace)) = Inr m \<and>
              prepareStackTrace p = Some h \<and>
              h \<lparr> message = (case m of Some s \<Rightarrow> s | None \<Rightarrow> fallbackMessage),
                  stackTrace = trace, stack = None \<rparr>
                (stackForPreviousHook previousStack trace nativeStack) = Inr r
            \<longrightarrow> (\<exists>e p'. encodeSolidityStackTrace fallbackMessage trace previousStack nativeStack p
                          = (Inr e, p')))"
proof -
  have le: "lastEntry trace = Some (last trace)"
    using assms by (rule lastEntry_nonempty)
  have ne: "\<And>s. getMessageFromLastStackTraceEntry (Some (last trace)) = Inr (Some s) \<Longrightarrow> s \<noteq> []"
    by (rule getMessage_nonempty)
  have a: "\<forall>e p'. encodeSolidityStackTrace fallbackMessage trace previousStack nativeStack p = (Inr e, p')
            \<longrightarrow> (\<exists>m. getMessageFromLastStackTraceEntry (Some (last trace)) = Inr m \<and>
                   message e = (case m of Some s \<Rightarrow> s | None \<Rightarrow> fallbackMessage) \<and>
                   (fallbackMessage \<noteq> [] \<longrightarrow> message e \<noteq> []))"
    using ne
    by (auto simp: encodeSolidityStackTrace_def le Let_def split: sum.splits option.splits)
  have b: "\<forall>m h r. getMessageFromLastStackTraceEntry (Some (last trace)) = Inr m \<and>
              prepareStackTrace p = Some h \<and>
              h \<lparr> message = (case m of Some s \<Rightarrow> s | None \<Rightarrow> fallbackMessage),
                  stackTrace = trace, stack = None \<rparr>
                (stackForPreviousHook previousStack trace nativeStack) = Inr r
            \<longrightarrow> (\<exists>e p'. encodeSolidityStackTrace fallbackMessage trace previousStack nativeStack p
                          = (Inr e, p'))"
    by (simp add: encodeSolidityStackTrace_def le Let_def temporaryPrepareStackTrace_def
          stackForPreviousHook_def)
  from a b show ?thesis by (rule conjI)
qed

text \<open>
  The theorem at a trace of one custom-error frame, with a hook installed that
  renders a stack when its first frame is synthetic and raises otherwise.
\<close>

theorem encodeSolidityStackTrace_message_witness:
  "[CUSTOM_ERROR ''boom''
      \<lparr>sourceName = ''A.sol'', contract = Some ''A'', function' = Some ''f'', line = Some 10\<rparr>] \<noteq> []
   \<and> (\<exists>e p'. encodeSolidityStackTrace ''fallback''
        [CUSTOM_ERROR ''boom''
           \<lparr>sourceName = ''A.sol'', contract = Some ''A'', function' = Some ''f'', line = Some 10\<rparr>]
        None []
        \<lparr>prepareStackTrace = Some (\<lambda>e st. case st of
             SolidityFrame c # rest \<Rightarrow> Inr (message e)
           | _ \<Rightarrow> Inl (HookError ''cannot render''))\<rparr> = (Inr e, p')
      \<and> message e = ''VM Exception while processing transaction: boom'')"
proof -
  let ?sr = "\<lparr>sourceName = ''A.sol'', contract = Some ''A'', function' = Some ''f'', line = Some 10\<rparr>"
  let ?h = "\<lambda>(e::SolidityError) st. case st of
             SolidityFrame c # rest \<Rightarrow> Inr (message e)
           | _ \<Rightarrow> Inl (HookError ''cannot render'')"
  let ?p = "\<lparr>prepareStackTrace = Some ?h\<rparr>"
  let ?tr = "[CUSTOM_ERROR ''boom'' ?sr]"
  have ne: "?tr \<noteq> []" by simp
  note t = encodeSolidityStackTrace_message [OF ne, of "''fallback''" None "[]" ?p]
  have m: "getMessageFromLastStackTraceEntry (Some (last ?tr)) =
             Inr (Some ''VM Exception while processing transaction: boom'')"
    by simp
  have "\<exists>e p'. encodeSolidityStackTrace ''fallback'' ?tr None [] ?p = (Inr e, p')"
    using conjunct2 [OF t, THEN spec, THEN spec, THEN spec,
        of "Some ''VM Exception while processing transaction: boom''" ?h
           "''VM Exception while processing transaction: boom''"]
    by (simp add: stackForPreviousHook_def)
  then obtain e p' where
    r: "encodeSolidityStackTrace ''fallback'' ?tr None [] ?p = (Inr e, p')"
    by blast
  from conjunct1 [OF t, THEN spec, THEN spec, THEN mp, OF r] m
  have "message e = ''VM Exception while processing transaction: boom''" by auto
  with r ne show ?thesis by blast
qed

text \<open>
  Claim C5 as stated fails where no hook is installed, and where the installed hook
  raises: for a non-empty trace the encoder raises and returns no error object.
\<close>

theorem encodeSolidityStackTrace_throws_counterexample:
  "fst (encodeSolidityStackTrace ''fallback''
        [CUSTOM_ERROR ''boom''
           \<lparr>sourceName = ''A.sol'', contract = Some ''A'', function' = Some ''f'', line = Some 10\<rparr>]
        None [] \<lparr>prepareStackTrace = None\<rparr>)
     = Inl (TypeError ''previousPrepareStackTrace is not a function'')
   \<and> fst (encodeSolidityStackTrace ''fallback''
        [CUSTOM_ERROR ''boom''
           \<lparr>sourceName = ''A.sol'', contract = Some ''A'', function' = Some ''f'', line = Some 10\<rparr>]
        None [] \<lparr>prepareStackTrace = Some (\<lambda>e st. Inl (HookError ''cannot render''))\<rparr>)
     = Inl (HookError ''cannot render'')"
  by (simp add: encodeSolidityStackTrace_def lastEntry_def temporaryPrepareStackTrace_def Let_def)

section \<open>Totality of the synthesizers\<close>

text \<open>
  Claim C8, as amended. Message synthesis returns for every frame, unless the frame is a
  revert-error frame whose return data is a malformed payload under the error selector,
  or an unrecognized-creation or unrecognized-contract error frame whose return data is
  a malformed payload under the error or the panic selector. The four call-stack
  variants without a case in the switch yield no message; and when the last frame of a
  trace yields no message, an error the encoder returns carries the fallback message.
  Call-site synthesis returns for every frame a call site that has a function name, and
  that has a contract name when the frame carries no source reference.
\<close>

theorem synthesis_total:
  "(\<not> undecodableReturnData f \<longrightarrow> (\<exists>m. getMessageFromLastStackTraceEntry (Some f) = Inr m))
   \<and> getMessageFromLastStackTraceEntry (Some (CALLSTACK_ENTRY sr)) = Inr None
   \<and> getMessageFromLastStackTraceEntry (Some UNRECOGNIZED_CREATE_CALLSTACK_ENTRY) = Inr None
   \<and> getMessageFromLastStackTraceEntry (Some (UNRECOGNIZED_CONTRACT_CALLSTACK_ENTRY address)) = Inr None
   \<and> getMessageFromLastStackTraceEntry (Some (INTERNAL_FUNCTION_CALLSTACK_ENTRY pc sr)) = Inr None
   \<and> (\<forall>e p'. getMessageFromLastStackTraceEntry (Some f) = Inr None \<and>
          encodeSolidityStackTrace fallbackMessage (tr @ [f]) previousStack nativeStack p = (Inr e, p')
          \<longrightarrow> message e = fallbackMessage)
   \<and> cs_functionName (encodeStackTraceEntry f) \<noteq> None
   \<and> (carriedSourceReference f = None \<longrightarrow> cs_contract (encodeStackTraceEntry f) \<noteq> None)"
proof -
  have a: "\<forall>e p'. getMessageFromLastStackTraceEntry (Some f) = Inr None \<and>
          encodeSolidityStackTrace fallbackMessage (tr @ [f]) previousStack nativeStack p = (Inr e, p')
          \<longrightarrow> message e = fallbackMessage"
    by (auto simp: encodeSolidityStackTrace_def lastEntry_snoc Let_def split: sum.splits)
  have b: "cs_functionName (encodeStackTraceEntry f) \<noteq> None"
    by (cases f) (auto simp: sourceReferenceToSolidityCallsite_def split: option.splits)
  have c: "carriedSourceReference f = None \<longrightarrow> cs_contract (encodeStackTraceEntry f) \<noteq> None"
    by (cases f) auto
  show ?thesis
    using a b c getMessage_returns [of f] by simp
qed

text \<open>
  The theorem at a trace of one call-stack entry, with a hook installed that renders
  every stack, and at a revert error with the reason \<open>hi\<close>.
\<close>

theorem synthesis_total_witness:
  "getMessageFromLastStackTraceEntry (Some (CALLSTACK_ENTRY
       \<lparr>sourceName = ''A.sol'', contract = Some ''A'', function' = Some ''f'', line = Some 10\<rparr>)) = Inr None
   \<and> message (projr (fst (encodeSolidityStackTrace ''fallback''
        ([] @ [CALLSTACK_ENTRY
           \<lparr>sourceName = ''A.sol'', contract = Some ''A'', function' = Some ''f'', line = Some 10\<rparr>])
        None [] \<lparr>prepareStackTrace = Some (\<lambda>e st. Inr ''rendered'')\<rparr>))) = ''fallback''
   \<and> (\<exists>m. getMessageFromLastStackTraceEntry (Some (UNRECOGNIZED_CREATE_ERROR [1, 2, 3] False)) = Inr m)
   \<and> cs_contract (encodeStackTraceEntry (UNRECOGNIZED_CREATE_ERROR [1, 2, 3] False)) \<noteq> None"
proof -
  let ?sr = "\<lparr>sourceName = ''A.sol'', contract = Some ''A'', function' = Some ''f'', line = Some 10\<rparr>"
  let ?p = "\<lparr>prepareStackTrace = Some (\<lambda>e st. Inr ''rendered'')\<rparr>"
  note t = synthesis_total [of "CALLSTACK_ENTRY ?sr" ?sr _ _ "''fallback''" "[]" None "[]" ?p]
  note u = synthesis_total [of "UNRECOGNIZED_CREATE_ERROR [1, 2, 3] False"]
  obtain e p' where r: "encodeSolidityStackTrace ''fallback'' ([] @ [CALLSTACK_ENTRY ?sr]) None [] ?p = (Inr e, p')"
    by (simp add: encodeSolidityStackTrace_def lastEntry_def temporaryPrepareStackTrace_def Let_def)
  from t r have "message e = ''fallback''" by blast
  moreover have "\<not> undecodableReturnData (UNRECOGNIZED_CREATE_ERROR [1, 2, 3] False)"
    by (simp add: malformedErrorPayload_def malformedPanicPayload_def ERROR_SELECTOR_def
          PANIC_SELECTOR_def)
  moreover have "carriedSourceReference (UNRECOGNIZED_CREATE_ERROR [1, 2, 3] False) = None"
    by simp
  ultimately show ?thesis using t r u by simp
qed

text \<open>
  Claim C8 as stated fails at a structurally valid frame: a revert error whose return
  data is the error selector with no payload. The guard accepts the selector, the
  decoder raises, and message synthesis raises with it; the same holds for an
  unrecognized-contract error under the panic selector.
\<close>

theorem synthesis_raises_counterexample:
  "getMessageFromLastStackTraceEntry (Some (REVERT_ERROR [0x08, 0xc3, 0x79, 0xa0]
       \<lparr>sourceName = ''A.sol'', contract = Some ''A'', function' = Some ''f'', line = Some 10\<rparr> False))
     = Inl (DecodeError ''Expected return data to contain a valid string'')
   \<and> getMessageFromLastStackTraceEntry
       (Some (UNRECOGNIZED_CONTRACT_ERROR [0xab] [0x4e, 0x48, 0x7b, 0x71] False))
     = Inl (DecodeError ''Expected return data to contain a valid uint256'')"
  by (simp add: Let_def isErrorReturnData_def decodeError_def isPanicReturnData_def
        decodePanic_def ERROR_SELECTOR_def PANIC_SELECTOR_def abiDecodeString_def
        abiDecodeUint256_def)

section \<open>Call sites\<close>

text \<open>
  Claim C6, as amended. For every frame that carries a source reference and is not the
  internal-call frame, the call site has the reference's file, contract and line, and as
  function the reference's function if present and the unknown-function label
  otherwise; for the two unrecognized-selector variants the function is the
  unrecognized-function label whatever the reference says. The internal-call frame has
  the reference's file and contract, the function \<^verbatim>\<open>internal@<pc>\<close> and no line.
\<close>

theorem encodeStackTraceEntry_source_reference:
  "(carriedSourceReference f = Some sr \<and> \<not> isInternalFunctionEntry f \<longrightarrow>
      encodeStackTraceEntry f =
        \<lparr> cs_sourceName = Some (sourceName sr), cs_contract = contract sr,
          cs_functionName =
            Some (if isUnrecognizedSelectorEntry f then UNRECOGNIZED_FUNCTION_NAME
                  else case function' sr of Some g \<Rightarrow> g | None \<Rightarrow> UNKNOWN_FUNCTION_NAME),
          cs_line = line sr \<rparr>)
   \<and> encodeStackTraceEntry (INTERNAL_FUNCTION_CALLSTACK_ENTRY pc sr) =
        \<lparr> cs_sourceName = Some (sourceName sr), cs_contract = contract sr,
          cs_functionName = Some (''internal@'' @ toStringRadix 10 pc), cs_line = None \<rparr>"
  by (cases f) (auto simp: sourceReferenceToSolidityCallsite_def)

text \<open>
  The theorem at a call-stack entry, at a missing-fallback-or-receive error, and at a
  panic error whose reference has no function.
\<close>

theorem encodeStackTraceEntry_source_reference_witness:
  "encodeStackTraceEntry (CALLSTACK_ENTRY
      \<lparr>sourceName = ''A.sol'', contract = Some ''A'', function' = Some ''f'', line = Some 10\<rparr>) =
     \<lparr> cs_sourceName = Some ''A.sol'', cs_contract = Some ''A'',
       cs_functionName = Some ''f'', cs_line = Some 10 \<rparr>
   \<and> encodeStackTraceEntry (MISSING_FALLBACK_OR_RECEIVE_ERROR
      \<lparr>sourceName = ''A.sol'', contract = Some ''A'', function' = Some ''f'', line = Some 10\<rparr>) =
     \<lparr> cs_sourceName = Some ''A.sol'', cs_contract = Some ''A'',
       cs_functionName = Some UNRECOGNIZED_FUNCTION_NAME, cs_line = Some 10 \<rparr>
   \<and> encodeStackTraceEntry (PANIC_ERROR 17 (Some
      \<lparr>sourceName = ''A.sol'', contract = Some ''A'', function' = None, line = Some 10\<rparr>)) =
     \<lparr> cs_sourceName = Some ''A.sol'', cs_contract = Some ''A'',
       cs_functionName = Some UNKNOWN_FUNCTION_NAME, cs_line = Some 10 \<rparr>"
  using encodeStackTraceEntry_source_reference [of "CALLSTACK_ENTRY
      \<lparr>sourceName = ''A.sol'', contract = Some ''A'', function' = Some ''f'', line = Some 10\<rparr>"
      "\<lparr>sourceName = ''A.sol'', contract = Some ''A'', function' = Some ''f'', line = Some 10\<rparr>"]
    encodeStackTraceEntry_source_reference [of "MISSING_FALLBACK_OR_RECEIVE_ERROR
      \<lparr>sourceName = ''A.sol'', contract = Some ''A'', function' = Some ''f'', line = Some 10\<rparr>"
      "\<lparr>sourceName = ''A.sol'', contract = Some ''A'', function' = Some ''f'', line = Some 10\<rparr>"]
    encodeStackTraceEntry_source_reference [of "PANIC_ERROR 17 (Some
      \<lparr>sourceName = ''A.sol'', contract = Some ''A'', function' = None, line = Some 10\<rparr>)"
      "\<lparr>sourceName = ''A.sol'', contract = Some ''A'', function' = None, line = Some 10\<rparr>"]
  by simp

text \<open>
  Claim C6 as stated fails for the internal-call frame, which carries a source
  reference: its call site has the function \<^verbatim>\<open>internal@5\<close>, not the reference's
  function, and no line, although the reference has line 10.
\<close>

theorem internal_function_entry_counterexample:
  "encodeStackTraceEntry (INTERNAL_FUNCTION_CALLSTACK_ENTRY 5
      \<lparr>sourceName = ''A.sol'', contract = Some ''A'', function' = Some ''f'', line = Some 10\<rparr>) =
     \<lparr> cs_sourceName = Some ''A.sol'', cs_contract = Some ''A'',
       cs_functionName = Some ''internal@5'', cs_line = None \<rparr>"
  by (simp add: toStringRadix.simps digitChar_def)

text \<open>
  Claim C10, as amended. An absent file name renders as the fixed label
  \<^verbatim>\<open>unknown\<close>, which is not empty; an absent contract, function name or line number
  renders as \<^verbatim>\<open>null\<close> through the accessors of the type name, of the function and
  method name, and of the line number. No absent field renders as an empty string.
\<close>

theorem accessors_absent_fields:
  "(cs_sourceName c = None \<longrightarrow> getFileName c = ''unknown'' \<and> getFileName c \<noteq> [])
   \<and> (cs_contract c = None \<longrightarrow> getTypeName c = None)
   \<and> (cs_functionName c = None \<longrightarrow> getFunctionName c = None \<and> getMethodName c = None)
   \<and> (cs_line c = None \<longrightarrow> getLineNumber c = None)"
  by (simp add: getFileName_def getTypeName_def getFunctionName_def getMethodName_def getLineNumber_def)

text \<open>
  The theorem at the call site with no field present.
\<close>

theorem accessors_absent_fields_witness:
  "getFileName \<lparr>cs_sourceName = None, cs_contract = None, cs_functionName = None, cs_line = None\<rparr>
     = ''unknown''"
  using accessors_absent_fields [of "\<lparr>cs_sourceName = None, cs_contract = None, cs_functionName = None, cs_line = None\<rparr>"]
  by simp

text \<open>
  Claim C10 as stated fails for every field but the file name: at the call site with
  no field present, the accessors of the type name, the function name, the method name
  and the line number return \<^verbatim>\<open>null\<close>, not a placeholder string.
\<close>

theorem accessors_absent_fields_counterexample:
  "getTypeName \<lparr>cs_sourceName = None, cs_contract = None, cs_functionName = None, cs_line = None\<rparr> = None
   \<and> getFunctionName \<lparr>cs_sourceName = None, cs_contract = None, cs_functionName = None, cs_line = None\<rparr> = None
   \<and> getMethodName \<lparr>cs_sourceName = None, cs_contract = None, cs_functionName = None, cs_line = None\<rparr> = None
   \<and> getLineNumber \<lparr>cs_sourceName = None, cs_contract = None, cs_functionName = None, cs_line = None\<rparr> = None"
  by (simp add: getTypeName_def getFunctionName_def getMethodName_def getLineNumber_def)

section \<open>Validation of build results\<close>

text \<open>
  Claim C3. On a map of file results the validator returns if and only if every result
  is a cache hit or a build success; with at least one failed result it fails with the
  generic build-failed error, whatever the other results are; and what it returns is the
  map it was given.
\<close>

theorem throwIfSolidityBuildFailed_file_results:
  "((\<exists>m'. throwIfSolidityBuildFailed (FileResults m) = Inr m') \<longleftrightarrow>
      (\<forall>r \<in> set (map snd m). type r = CACHE_HIT \<or> type r = BUILD_SUCCESS))
   \<and> ((\<exists>r \<in> set (map snd m). type r = BUILD_FAILURE) \<longrightarrow>
        throwIfSolidityBuildFailed (FileResults m) = Inl BUILD_FAILED)
   \<and> (\<forall>m'. throwIfSolidityBuildFailed (FileResults m) = Inr m' \<longrightarrow> m' = m)"
  by (auto simp: throwIfSolidityBuildFailed_def Let_def list_all_iff)

text \<open>
  The theorem at a map of a build success and a cache hit, and at a map of a build
  success and a build failure.
\<close>

theorem throwIfSolidityBuildFailed_file_results_witness:
  "throwIfSolidityBuildFailed (FileResults
      [(''contracts/A.sol'', \<lparr>type = BUILD_SUCCESS, buildId = ''b1'', contractArtifactsGenerated = [''artifacts/A.json'']\<rparr>),
       (''contracts/B.sol'', \<lparr>type = CACHE_HIT, buildId = ''b0'', contractArtifactsGenerated = []\<rparr>)])
    = Inr [(''contracts/A.sol'', \<lparr>type = BUILD_SUCCESS, buildId = ''b1'', contractArtifactsGenerated = [''artifacts/A.json'']\<rparr>),
       (''contracts/B.sol'', \<lparr>type = CACHE_HIT, buildId = ''b0'', contractArtifactsGenerated = []\<rparr>)]
   \<and> throwIfSolidityBuildFailed (FileResults
      [(''contracts/A.sol'', \<lparr>type = BUILD_SUCCESS, buildId = ''b1'', contractArtifactsGenerated = [''artifacts/A.json'']\<rparr>),
       (''contracts/C.sol'', \<lparr>type = BUILD_FAILURE, buildId = ''b1'', contractArtifactsGenerated = []\<rparr>)])
    = Inl BUILD_FAILED"
  using throwIfSolidityBuildFailed_file_results [of "[(''contracts/A.sol'', \<lparr>type = BUILD_SUCCESS, buildId = ''b1'', contractArtifactsGenerated = [''artifacts/A.json'']\<rparr>),
       (''contracts/B.sol'', \<lparr>type = CACHE_HIT, buildId = ''b0'', contractArtifactsGenerated = []\<rparr>)]"]
    throwIfSolidityBuildFailed_file_results [of "[(''contracts/A.sol'', \<lparr>type = BUILD_SUCCESS, buildId = ''b1'', contractArtifactsGenerated = [''artifacts/A.json'']\<rparr>),
       (''contracts/C.sol'', \<lparr>type = BUILD_FAILURE, buildId = ''b1'', contractArtifactsGenerated = []\<rparr>)]"]
  by auto

text \<open>
  Claim C4, as amended. On a job-creation failure the validator fails with the
  job-creation error that carries, as its reason, the \<^verbatim>\<open>formattedReason\<close> of the
  input, and the input's root file path and build profile.
\<close>

theorem throwIfSolidityBuildFailed_job_creation:
  "throwIfSolidityBuildFailed (JobCreationFailed e) =
     Inl (COMPILATION_JOB_CREATION_ERROR (formattedReason e) (rootFilePath e) (buildProfile e))"
  by (simp add: throwIfSolidityBuildFailed_def)

text \<open>
  The theorem at one job-creation failure.
\<close>

theorem throwIfSolidityBuildFailed_job_creation_witness:
  "throwIfSolidityBuildFailed (JobCreationFailed
      \<lparr>reason = ''no-compatible-solc-version-found'',
       formattedReason = ''No solc version enabled in this profile is compatible with this file.'',
       rootFilePath = ''contracts/A.sol'', buildProfile = ''default''\<rparr>)
   = Inl (COMPILATION_JOB_CREATION_ERROR
       ''No solc version enabled in this profile is compatible with this file.''
       ''contracts/A.sol'' ''default'')"
  using throwIfSolidityBuildFailed_job_creation [of "\<lparr>reason = ''no-compatible-solc-version-found'',
       formattedReason = ''No solc version enabled in this profile is compatible with this file.'',
       rootFilePath = ''contracts/A.sol'', buildProfile = ''default''\<rparr>"]
  by simp

text \<open>
  Claim C4 as stated fails where the input's \<^verbatim>\<open>reason\<close> and
  \<^verbatim>\<open>formattedReason\<close> differ: the reason the error carries is not the input's
  \<^verbatim>\<open>reason\<close>.
\<close>

theorem job_creation_reason_counterexample:
  "arg_reason (projl (throwIfSolidityBuildFailed (JobCreationFailed
      \<lparr>reason = ''no-compatible-solc-version-found'',
       formattedReason = ''No solc version enabled in this profile is compatible with this file.'',
       rootFilePath = ''contracts/A.sol'', buildProfile = ''default''\<rparr>)))
   \<noteq> reason \<lparr>reason = ''no-compatible-solc-version-found'',
       formattedReason = ''No solc version enabled in this profile is compatible with this file.'',
       rootFilePath = ''contracts/A.sol'', buildProfile = ''default''\<rparr>"
  by (simp add: throwIfSolidityBuildFailed_def)

section \<open>Aggregation of artifacts\<close>

text \<open>
  Claim C7. When every artifact file and every build-info file
  \<^verbatim>\<open><artifactsRoot>/build-info/<buildId>.json\<close> of the results can be read, the
  aggregator returns one record per generated-artifact path, each the join of the two
  files and the source path, in the order of the results map and, within an entry, in
  the order of its artifact paths.
\<close>

theorem getArtifacts_records_in_order:
  assumes "\<forall>(src, result) \<in> set results. \<forall>p \<in> set (contractArtifactsGenerated result).
       (\<exists>a. readArtifact pf p = Inr a) \<and>
       (\<exists>b. readBuildInfo pf (join pf [root, ''build-info'', buildId result @ ''.json'']) = Inr b)"
  shows "getArtifacts pf results root =
        Inr (concat (map (\<lambda>(src, result).
               map (artifactRecord pf root src result) (contractArtifactsGenerated result)) results))"
  using artifactsOfResults_ok [OF assms, of "[]"] by (simp add: getArtifacts_def)

text \<open>
  The theorem at one build success with one artifact, on a platform that holds the
  artifact of contract \<^verbatim>\<open>Foo\<close> and the build info of build \<^verbatim>\<open>b1\<close>.
\<close>

theorem getArtifacts_records_in_order_witness:
  "getArtifacts
     \<lparr> readArtifact = (\<lambda>p. if p = ''artifacts/Foo.json''
          then Inr \<lparr> artifact_contractName = ''Foo'', artifact_abi = ''[]'',
                     artifact_bytecode = ''0x60'', artifact_deployedBytecode = ''0x60'' \<rparr>
          else Inl (IOError ''ENOENT'')),
       readBuildInfo = (\<lambda>p. if p = ''artifacts/build-info/b1.json''
          then Inr \<lparr> buildInfo_solcVersion = ''0.8.24'' \<rparr> else Inl (IOError ''ENOENT'')),
       join = (\<lambda>parts. foldr (\<lambda>a b. if b = [] then a else a @ ''/'' @ b) parts []),
       stringify = (\<lambda>a. a) \<rparr>
     [(''contracts/Foo.sol'',
       \<lparr>type = BUILD_SUCCESS, buildId = ''b1'', contractArtifactsGenerated = [''artifacts/Foo.json'']\<rparr>)]
     ''artifacts''
   = Inr [\<lparr> artifact_id = \<lparr> name = ''Foo'', solcVersion = ''0.8.24'', source = ''contracts/Foo.sol'' \<rparr>,
            artifact_contract = \<lparr> abi = ''[]'', bytecode = ''0x60'', deployedBytecode = ''0x60'' \<rparr> \<rparr>]"
proof -
  let ?pf = "\<lparr> readArtifact = (\<lambda>p. if p = ''artifacts/Foo.json''
          then Inr \<lparr> artifact_contractName = ''Foo'', artifact_abi = ''[]'',
                     artifact_bytecode = ''0x60'', artifact_deployedBytecode = ''0x60'' \<rparr>
          else Inl (IOError ''ENOENT'')),
       readBuildInfo = (\<lambda>p. if p = ''artifacts/build-info/b1.json''
          then Inr \<lparr> buildInfo_solcVersion = ''0.8.24'' \<rparr> else Inl (IOError ''ENOENT'')),
       join = (\<lambda>parts. foldr (\<lambda>a b. if b = [] then a else a @ ''/'' @ b) parts []),
       stringify = (\<lambda>a. a) \<rparr>"
  let ?results = "[(''contracts/Foo.sol'',
       \<lparr>type = BUILD_SUCCESS, buildId = ''b1'', contractArtifactsGenerated = [''artifacts/Foo.json'']\<rparr>)]"
  have ok: "\<forall>(src, result) \<in> set ?results. \<forall>p \<in> set (contractArtifactsGenerated result).
       (\<exists>a. readArtifact ?pf p = Inr a) \<and>
       (\<exists>b. readBuildInfo ?pf (join ?pf [''artifacts'', ''build-info'', buildId result @ ''.json'']) = Inr b)"
    by simp
  show ?thesis
    using getArtifacts_records_in_order [OF ok] by (simp add: artifactRecord_def)
qed

section \<open>Selection of test suites\<close>

text \<open>
  Claim C9. The selector returns the ids of exactly those artifacts whose source is the
  path, relative to the project root, of some candidate path that ends in
  \<^verbatim>\<open>.t.sol\<close>, in the order of the artifacts.
\<close>

theorem getTestSuiteIds_selects:
  "getTestSuiteIds relative artifacts rootFilePaths projectRoot =
     map artifact_id (filter (\<lambda>a. \<exists>p \<in> set rootFilePaths.
        endsWith p ''.t.sol'' \<and> source (artifact_id a) = relative projectRoot p) artifacts)"
proof -
  have "filter (\<lambda>a. source (artifact_id a) \<in>
            set (map (relative projectRoot) (filter (\<lambda>p. endsWith p ''.t.sol'') rootFilePaths))) artifacts
      = filter (\<lambda>a. \<exists>p \<in> set rootFilePaths.
            endsWith p ''.t.sol'' \<and> source (artifact_id a) = relative projectRoot p) artifacts"
    by (rule filter_cong) auto
  then show ?thesis
    by (simp only: getTestSuiteIds_def Let_def filter_map comp_def)
qed

text \<open>
  The theorem at two artifacts and two candidate paths, the test file listed last.
\<close>

theorem getTestSuiteIds_selects_witness:
  "getTestSuiteIds (\<lambda>root p. drop (length root + 1) p)
     [\<lparr> artifact_id = \<lparr> name = ''ATest'', solcVersion = ''0.8.24'', source = ''a.t.sol'' \<rparr>,
         artifact_contract = \<lparr> abi = ''[]'', bytecode = ''0x60'', deployedBytecode = ''0x60'' \<rparr> \<rparr>,
      \<lparr> artifact_id = \<lparr> name = ''B'', solcVersion = ''0.8.24'', source = ''b.sol'' \<rparr>,
         artifact_contract = \<lparr> abi = ''[]'', bytecode = ''0x60'', deployedBytecode = ''0x60'' \<rparr> \<rparr>]
     [''/proj/b.sol'', ''/proj/a.t.sol''] ''/proj''
   = [\<lparr> name = ''ATest'', solcVersion = ''0.8.24'', source = ''a.t.sol'' \<rparr>]"
  using getTestSuiteIds_selects [of "\<lambda>root p. drop (length root + 1) p"
     "[\<lparr> artifact_id = \<lparr> name = ''ATest'', solcVersion = ''0.8.24'', source = ''a.t.sol'' \<rparr>,
         artifact_contract = \<lparr> abi = ''[]'', bytecode = ''0x60'', deployedBytecode = ''0x60'' \<rparr> \<rparr>,
      \<lparr> artifact_id = \<lparr> name = ''B'', solcVersion = ''0.8.24'', source = ''b.sol'' \<rparr>,
         artifact_contract = \<lparr> abi = ''[]'', bytecode = ''0x60'', deployedBytecode = ''0x60'' \<rparr> \<rparr>]"
     "[''/proj/b.sol'', ''/proj/a.t.sol'']" "''/proj''"]
  by (simp add: endsWith_def)

end
